theory Spec2Isabelle
  imports Main "HOL-Library.AList"
begin

section \<open>Values\<close>

text \<open>
  A Python \<open>str\<close> is a sequence of code points, and \<open>len\<close> and slicing count code
  points; the source's literals hold code points above 255, so a string is a list of
  naturals. \<open>py\<close> turns an ASCII literal into such a string.
\<close>

type_synonym pystr = "nat list"

definition py :: "string \<Rightarrow> pystr" where
  "py cs = map of_char cs"

text \<open>The three pictographs of the status texts of \<open>/test\<close>: U+2705, U+274C and U+26A0 U+FE0F.\<close>

definition check_mark :: pystr where
  "check_mark = [9989]"

definition cross_mark :: pystr where
  "cross_mark = [10060]"

definition warning_sign :: pystr where
  "warning_sign = [9888, 65039]"

text \<open>
  The values of request bodies and of stored documents: \<open>None\<close>, booleans, integers,
  strings, lists and dicts with string keys. A dict is an association list read with
  \<open>map_of\<close>. Floats, dates and the store's own identifier objects are left out (an
  identifier is a string where it appears).
\<close>

datatype json =
    JNull
  | JBool bool
  | JInt int
  | JStr pystr
  | JList "json list"
  | JDict "(pystr \<times> json) list"

type_synonym document = "(pystr \<times> json) list"

text \<open>Python's truth value of \<open>os.getenv(...)\<close>: \<open>None\<close> and the empty string are false.\<close>

definition truthy :: "pystr option \<Rightarrow> bool" where
  "truthy v = (case v of None \<Rightarrow> False | Some s \<Rightarrow> s \<noteq> [])"

section \<open>Exceptions and the outcome of a request\<close>

text \<open>
  An exception carries its text, \<open>str(e)\<close>. For a \<open>ValidationError\<close> the text kept is
  the schema's name only, not pydantic's report.
\<close>

datatype exn =
    StoreError pystr
  | TypeError pystr
  | ValidationError pystr

fun str_exn :: "exn \<Rightarrow> pystr" where
  "str_exn (StoreError m) = m"
| "str_exn (TypeError m) = m"
| "str_exn (ValidationError m) = m"

text \<open>
  What a route gives back: \<open>Return v\<close> is the success payload; \<open>HTTPError status detail\<close>
  is the structured error response (the handler's \<open>raise HTTPException(status_code, detail)\<close>,
  or the framework's 422 for a body that fails its schema); \<open>Raised e\<close> is an exception
  that leaves the handler uncaught.
\<close>

datatype 'a outcome =
    Return 'a
  | HTTPError nat pystr
  | Raised exn

fun map_outcome :: "('a \<Rightarrow> 'b) \<Rightarrow> 'a outcome \<Rightarrow> 'b outcome" where
  "map_outcome f (Return v) = Return (f v)"
| "map_outcome f (HTTPError st d) = HTTPError st d"
| "map_outcome f (Raised e) = Raised e"

section \<open>The document store (module \<open>database\<close>)\<close>

text \<open>
  The operations that reach the store. The environment records each call in \<open>calls\<close>, so
  that "no store operation" is a statement about the model.
\<close>

datatype store_op =
    OpCreate pystr
  | OpList pystr
  | OpCount pystr
  | OpCollectionNames

text \<open>
  Modelled from the spec: the identifiers the store generates. Section 4.1 has \<open>create\<close>
  return "its generated identifier as a string", and section 8 has the contact route, which
  passes that string on unchanged, return "a non-empty identifier": an identifier is a
  non-empty string, kept as its first character and the rest.
\<close>

datatype ident = Ident nat pystr

fun str_ident :: "ident \<Rightarrow> pystr" where
  "str_ident (Ident c cs) = c # cs"

text \<open>
  The handle \<open>db\<close>: its \<open>name\<close> attribute (read with \<open>getattr(db, "name", default)\<close>),
  the collections with their documents in storage order, the operations the backend
  refuses (with the error text), and the generator of identifiers, asked with the number
  of documents created so far.
\<close>

record store =
  name :: "pystr option"
  contents :: "(pystr \<times> document list) list"
  rejects :: "store_op \<Rightarrow> pystr option"
  new_id :: "nat \<Rightarrow> ident"
  created :: nat

text \<open>
  The process: the handle (\<open>None\<close> when no connection was opened), the environment
  variable \<open>DATABASE_URL\<close>, and the store calls made so far.
\<close>

record env =
  db :: "store option"
  DATABASE_URL :: "pystr option"
  calls :: "store_op list"

definition documents :: "store \<Rightarrow> pystr \<Rightarrow> document list" where
  "documents d c = (case map_of (contents d) c of None \<Rightarrow> [] | Some ds \<Rightarrow> ds)"

definition called :: "store_op \<Rightarrow> env \<Rightarrow> env" where
  "called op e = e\<lparr>calls := calls e @ [op]\<rparr>"

definition unavailable :: pystr where
  "unavailable = py ''Database not available''"

text \<open>
  Modelled from the spec: \<open>create_document\<close> of the module \<open>database\<close>, which is not among
  the sources. Section 4.1: "inserts a new document; returns its generated identifier as a
  string. Fails with a StoreError if the underlying connection is unavailable or the write
  is rejected." The stored document carries the identifier in the field \<open>_id\<close>, the one
  the read handlers remove.
\<close>

definition create_document :: "pystr \<Rightarrow> document \<Rightarrow> env \<Rightarrow> (exn + pystr) \<times> env" where
  "create_document c doc e =
     (case db e of
        None \<Rightarrow> (Inl (StoreError unavailable), called (OpCreate c) e)
      | Some d \<Rightarrow>
          (case rejects d (OpCreate c) of
             Some m \<Rightarrow> (Inl (StoreError m), called (OpCreate c) e)
           | None \<Rightarrow>
               (let i = str_ident (new_id d (created d));
                    stored = documents d c @ [(py ''_id'', JStr i) # doc];
                    d' = d\<lparr>contents := AList.update c stored (contents d),
                           created := Suc (created d)\<rparr>
                in (Inr i, called (OpCreate c) (e\<lparr>db := Some d'\<rparr>)))))"

text \<open>
  Modelled from the spec: \<open>get_documents\<close> of the module \<open>database\<close>. Section 4.1: "returns
  up to limit documents (insertion/storage order is whatever the backend provides ...).
  Returns an empty sequence, never an error, when the collection has no documents."
  Section 7 has reads fail when the connection is not established or the backend rejects
  the read.
\<close>

definition get_documents :: "pystr \<Rightarrow> nat option \<Rightarrow> env \<Rightarrow> (exn + document list) \<times> env" where
  "get_documents c limit e =
     (case db e of
        None \<Rightarrow> (Inl (StoreError unavailable), called (OpList c) e)
      | Some d \<Rightarrow>
          (case rejects d (OpList c) of
             Some m \<Rightarrow> (Inl (StoreError m), called (OpList c) e)
           | None \<Rightarrow>
               (Inr (case limit of None \<Rightarrow> documents d c | Some n \<Rightarrow> take n (documents d c)),
                called (OpList c) e)))"

text \<open>The text of the \<open>TypeError\<close> for \<open>None[...]\<close>; 39 is the apostrophe.\<close>

definition not_subscriptable :: pystr where
  "not_subscriptable = [39] @ py ''NoneType'' @ [39] @ py '' object is not subscriptable''"

text \<open>
  Modelled from the spec: the count behind \<open>db[c].count_documents({})\<close>. Section 4.1,
  \<open>count(collection_name, filter) -> integer\<close>, "treated as empty when count is zero": the
  number of documents of the collection. The call is written in \<open>main.py\<close> on the handle
  itself, so with no handle the subscript \<open>None[c]\<close> raises a \<open>TypeError\<close> before any call
  is made.
\<close>

definition count_documents :: "pystr \<Rightarrow> env \<Rightarrow> (exn + nat) \<times> env" where
  "count_documents c e =
     (case db e of
        None \<Rightarrow> (Inl (TypeError not_subscriptable), e)
      | Some d \<Rightarrow>
          (case rejects d (OpCount c) of
             Some m \<Rightarrow> (Inl (StoreError m), called (OpCount c) e)
           | None \<Rightarrow> (Inr (length (documents d c)), called (OpCount c) e)))"

text \<open>\<open>db.list_collection_names()\<close>, for a handle that is not \<open>None\<close>.\<close>

definition list_collection_names :: "store \<Rightarrow> exn + pystr list" where
  "list_collection_names d =
     (case rejects d OpCollectionNames of
        Some m \<Rightarrow> Inl (StoreError m)
      | None \<Rightarrow> Inr (map fst (contents d)))"

text \<open>
  Modelled from the spec: how the module \<open>database\<close> opens the handle. Sections 5 and 6: the
  connection string is read from the environment at startup, the handle is opened once,
  and a missing connection string leaves the process running without a connection.
\<close>

definition startup :: "pystr option \<Rightarrow> store \<Rightarrow> env" where
  "startup url backend =
     \<lparr>db = (if truthy url then Some backend else None), DATABASE_URL = url, calls = []\<rparr>"

text \<open>
  Modelled from the spec: the same sections as an invariant of the running process. A
  handle exists only when a connection string was set; the routes change neither the
  variable nor whether there is a handle.
\<close>

definition opened_from_environment :: "env \<Rightarrow> bool" where
  "opened_from_environment e = (truthy (DATABASE_URL e) \<or> db e = None)"

text \<open>Two environments with the same variable, and both with or both without a handle.\<close>

definition same_connection :: "env \<Rightarrow> env \<Rightarrow> bool" where
  "same_connection e e' = (DATABASE_URL e' = DATABASE_URL e \<and> (db e' = None \<longleftrightarrow> db e = None))"

text \<open>Sequencing of two steps that may raise, the state threaded through.\<close>

definition and_then ::
  "('s \<Rightarrow> (exn + 'a) \<times> 's) \<Rightarrow> ('a \<Rightarrow> 's \<Rightarrow> (exn + 'b) \<times> 's) \<Rightarrow> 's \<Rightarrow> (exn + 'b) \<times> 's" where
  "and_then m f s = (case m s of (Inl e, s') \<Rightarrow> (Inl e, s') | (Inr a, s') \<Rightarrow> f a s')"

section \<open>Schemas (\<open>schemas.py\<close>)\<close>

text \<open>
  The two format checks that pydantic hands to other libraries are parameters: each
  gives the validated value, or \<open>None\<close> for a string it refuses.
\<close>

record validators =
  http_url :: "pystr \<Rightarrow> pystr option"
  email_str :: "pystr \<Rightarrow> pystr option"

text \<open>
  Field types: \<open>str\<close>, \<open>str\<close> with length bounds, \<open>EmailStr\<close>, \<open>HttpUrl\<close>, \<open>Optional\<close>, \<open>List\<close>,
  \<open>Dict\<close>. A \<open>str\<close> field takes a string and nothing else, as pydantic 2 has it (version
  1 would also convert a number); the value is kept as it is, with no stripping.
\<close>

fun str_type :: "json \<Rightarrow> pystr option" where
  "str_type (JStr s) = Some s"
| "str_type _ = None"

definition constr :: "nat \<Rightarrow> nat \<Rightarrow> json \<Rightarrow> pystr option" where
  "constr min_length max_length v =
     (case str_type v of
        None \<Rightarrow> None
      | Some s \<Rightarrow> if min_length \<le> length s \<and> length s \<le> max_length then Some s else None)"

definition EmailStr :: "validators \<Rightarrow> json \<Rightarrow> pystr option" where
  "EmailStr V v = (case str_type v of None \<Rightarrow> None | Some s \<Rightarrow> email_str V s)"

definition HttpUrl :: "validators \<Rightarrow> json \<Rightarrow> pystr option" where
  "HttpUrl V v = (case str_type v of None \<Rightarrow> None | Some s \<Rightarrow> http_url V s)"

definition Optional :: "(json \<Rightarrow> 'a option) \<Rightarrow> json \<Rightarrow> 'a option option" where
  "Optional t v = (if v = JNull then Some None else map_option Some (t v))"

fun List_of :: "(json \<Rightarrow> 'a option) \<Rightarrow> json \<Rightarrow> 'a list option" where
  "List_of t (JList vs) = those (map t vs)"
| "List_of t _ = None"

fun Dict_of :: "(json \<Rightarrow> 'a option) \<Rightarrow> json \<Rightarrow> (pystr \<times> 'a) list option" where
  "Dict_of t (JDict kvs) = map_option (zip (map fst kvs)) (those (map (\<lambda>kv. t (snd kv)) kvs))"
| "Dict_of t _ = None"

text \<open>\<open>Field(...)\<close> is a required field; \<open>Field(default)\<close> one with a default.\<close>

definition required :: "document \<Rightarrow> pystr \<Rightarrow> (json \<Rightarrow> 'a option) \<Rightarrow> 'a option" where
  "required kw k t = (case map_of kw k of None \<Rightarrow> None | Some v \<Rightarrow> t v)"

definition with_default :: "document \<Rightarrow> pystr \<Rightarrow> 'a \<Rightarrow> (json \<Rightarrow> 'a option) \<Rightarrow> 'a option" where
  "with_default kw k dflt t = (case map_of kw k of None \<Rightarrow> Some dflt | Some v \<Rightarrow> t v)"

record PortfolioProfile =
  name :: pystr
  role :: pystr
  bio :: pystr
  location :: "pystr option"
  avatar :: "pystr option"
  socials :: "(pystr \<times> pystr option) list"
  skills :: "pystr list"

record PortfolioProject =
  title :: pystr
  description :: pystr
  image :: "pystr option"
  tags :: "pystr list"
  url :: "pystr option"
  repo :: "pystr option"

record ContactMessage =
  name :: pystr
  email :: pystr
  message :: pystr

definition default_socials :: "(pystr \<times> pystr option) list" where
  "default_socials =
     [(py ''github'', None), (py ''twitter'', None), (py ''linkedin'', None), (py ''website'', None)]"

text \<open>
  \<open>PortfolioProfile(**kw)\<close>: every field is checked against its type, keys that are not
  fields are ignored, and any failure raises \<open>ValidationError\<close>.
\<close>

definition validate_PortfolioProfile :: "validators \<Rightarrow> document \<Rightarrow> exn + PortfolioProfile" where
  "validate_PortfolioProfile V kw =
     (case
        Option.bind (required kw (py ''name'') str_type) (\<lambda>n.
        Option.bind (required kw (py ''role'') str_type) (\<lambda>r.
        Option.bind (required kw (py ''bio'') str_type) (\<lambda>b.
        Option.bind (with_default kw (py ''location'') None (Optional str_type)) (\<lambda>l.
        Option.bind (with_default kw (py ''avatar'') None (Optional (HttpUrl V))) (\<lambda>a.
        Option.bind (with_default kw (py ''socials'') default_socials (Dict_of (Optional str_type))) (\<lambda>so.
        Option.bind (with_default kw (py ''skills'') [] (List_of str_type)) (\<lambda>sk.
          Some \<lparr>PortfolioProfile.name = n, role = r, bio = b, location = l, avatar = a,
                socials = so, skills = sk\<rparr>)))))))
      of
        None \<Rightarrow> Inl (ValidationError (py ''PortfolioProfile''))
      | Some p \<Rightarrow> Inr p)"

definition validate_PortfolioProject :: "validators \<Rightarrow> document \<Rightarrow> exn + PortfolioProject" where
  "validate_PortfolioProject V kw =
     (case
        Option.bind (required kw (py ''title'') str_type) (\<lambda>t.
        Option.bind (required kw (py ''description'') str_type) (\<lambda>d.
        Option.bind (with_default kw (py ''image'') None (Optional str_type)) (\<lambda>i.
        Option.bind (with_default kw (py ''tags'') [] (List_of str_type)) (\<lambda>ts.
        Option.bind (with_default kw (py ''url'') None (Optional (HttpUrl V))) (\<lambda>u.
        Option.bind (with_default kw (py ''repo'') None (Optional (HttpUrl V))) (\<lambda>r.
          Some \<lparr>title = t, description = d, image = i, tags = ts, url = u, repo = r\<rparr>))))))
      of
        None \<Rightarrow> Inl (ValidationError (py ''PortfolioProject''))
      | Some p \<Rightarrow> Inr p)"

definition validate_ContactMessage :: "validators \<Rightarrow> document \<Rightarrow> exn + ContactMessage" where
  "validate_ContactMessage V kw =
     (case
        Option.bind (required kw (py ''name'') str_type) (\<lambda>n.
        Option.bind (required kw (py ''email'') (EmailStr V)) (\<lambda>e.
        Option.bind (required kw (py ''message'') (constr 3 5000)) (\<lambda>m.
          Some \<lparr>ContactMessage.name = n, email = e, message = m\<rparr>)))
      of
        None \<Rightarrow> Inl (ValidationError (py ''ContactMessage''))
      | Some p \<Rightarrow> Inr p)"

text \<open>A model as the dict that is stored or sent: one entry per field, in the schema's order.\<close>

definition opt_json :: "pystr option \<Rightarrow> json" where
  "opt_json v = (case v of None \<Rightarrow> JNull | Some s \<Rightarrow> JStr s)"

definition dump_PortfolioProfile :: "PortfolioProfile \<Rightarrow> document" where
  "dump_PortfolioProfile p =
     [(py ''name'', JStr (PortfolioProfile.name p)),
      (py ''role'', JStr (role p)),
      (py ''bio'', JStr (bio p)),
      (py ''location'', opt_json (location p)),
      (py ''avatar'', opt_json (avatar p)),
      (py ''socials'', JDict (map (\<lambda>kv. (fst kv, opt_json (snd kv))) (socials p))),
      (py ''skills'', JList (map JStr (skills p)))]"

definition dump_PortfolioProject :: "PortfolioProject \<Rightarrow> document" where
  "dump_PortfolioProject p =
     [(py ''title'', JStr (title p)),
      (py ''description'', JStr (description p)),
      (py ''image'', opt_json (image p)),
      (py ''tags'', JList (map JStr (tags p))),
      (py ''url'', opt_json (url p)),
      (py ''repo'', opt_json (repo p))]"

definition dump_ContactMessage :: "ContactMessage \<Rightarrow> document" where
  "dump_ContactMessage p =
     [(py ''name'', JStr (ContactMessage.name p)),
      (py ''email'', JStr (email p)),
      (py ''message'', JStr (message p))]"

section \<open>Routes (\<open>main.py\<close>)\<close>

subsection \<open>\<open>GET /test\<close>\<close>

record status =
  backend :: pystr
  database :: pystr
  database_url :: pystr
  database_name :: pystr
  connection_status :: pystr
  collections :: "pystr list"

definition initial_status :: status where
  "initial_status =
     \<lparr>backend = check_mark @ py '' Running'',
      database = cross_mark @ py '' Not Available'',
      database_url = cross_mark @ py '' Not Set'',
      database_name = cross_mark @ py '' Not Set'',
      connection_status = py ''Not Connected'',
      collections = []\<rparr>"

text \<open>
  The statements of the outer \<open>try\<close> that stand outside the inner one (\<open>os.getenv\<close>,
  \<open>getattr\<close> with a default, assignments to the dict) raise nothing, so the outer handler
  has no branch here; the inner \<open>try\<close> is the case split on \<open>list_collection_names\<close>.
\<close>

definition test_database :: "env \<Rightarrow> status outcome \<times> env" where
  "test_database e =
     (case db e of
        None \<Rightarrow> (Return initial_status, e)
      | Some d \<Rightarrow>
          (let st = initial_status
                 \<lparr>database := check_mark @ py '' Available'',
                  database_url :=
                    (if truthy (DATABASE_URL e) then check_mark @ py '' Set''
                     else cross_mark @ py '' Not Set''),
                  database_name :=
                    (case store.name d of Some n \<Rightarrow> n | None \<Rightarrow> check_mark @ py '' Connected''),
                  connection_status := py ''Connected''\<rparr>
           in (case list_collection_names d of
                 Inr names \<Rightarrow>
                   (Return (st\<lparr>collections := take 10 names,
                               database := check_mark @ py '' Connected & Working''\<rparr>),
                    called OpCollectionNames e)
               | Inl ex \<Rightarrow>
                   (Return (st\<lparr>database :=
                               warning_sign @ py '' Connected but Error: '' @ take 80 (str_exn ex)\<rparr>),
                    called OpCollectionNames e))))"

subsection \<open>\<open>GET /api/profile\<close> and \<open>GET /api/projects\<close>\<close>

definition get_profile :: "validators \<Rightarrow> env \<Rightarrow> PortfolioProfile option outcome \<times> env" where
  "get_profile V e =
     (case get_documents (py ''portfolioprofile'') (Some 1) e of
        (Inl ex, e') \<Rightarrow> (Raised ex, e')
      | (Inr docs, e') \<Rightarrow>
          (case docs of
             [] \<Rightarrow> (Return None, e')
           | doc # _ \<Rightarrow>
               (case validate_PortfolioProfile V (AList.delete (py ''_id'') doc) of
                  Inl ex \<Rightarrow> (Raised ex, e')
                | Inr p \<Rightarrow> (Return (Some p), e'))))"

text \<open>The loop of \<open>list_projects\<close>: \<open>results\<close> grows by one validated project per document.\<close>

fun list_projects_loop ::
  "validators \<Rightarrow> document list \<Rightarrow> PortfolioProject list \<Rightarrow> exn + PortfolioProject list" where
  "list_projects_loop V [] results = Inr results"
| "list_projects_loop V (d # items) results =
     (case validate_PortfolioProject V (AList.delete (py ''_id'') d) of
        Inl ex \<Rightarrow> Inl ex
      | Inr p \<Rightarrow> list_projects_loop V items (results @ [p]))"

definition list_projects :: "validators \<Rightarrow> env \<Rightarrow> PortfolioProject list outcome \<times> env" where
  "list_projects V e =
     (case get_documents (py ''portfolioproject'') None e of
        (Inl ex, e') \<Rightarrow> (Raised ex, e')
      | (Inr items, e') \<Rightarrow>
          (case list_projects_loop V items [] of
             Inl ex \<Rightarrow> (Raised ex, e')
           | Inr results \<Rightarrow> (Return results, e')))"

text \<open>
  The responses as sent: the framework serialises the returned models through the route's
  \<open>response_model\<close>.
\<close>

definition GET_api_profile :: "validators \<Rightarrow> env \<Rightarrow> json outcome \<times> env" where
  "GET_api_profile V e =
     (case get_profile V e of
        (r, e') \<Rightarrow>
          (map_outcome (\<lambda>v. case v of None \<Rightarrow> JNull | Some p \<Rightarrow> JDict (dump_PortfolioProfile p)) r,
           e'))"

definition GET_api_projects :: "validators \<Rightarrow> env \<Rightarrow> json outcome \<times> env" where
  "GET_api_projects V e =
     (case list_projects V e of
        (r, e') \<Rightarrow> (map_outcome (\<lambda>ps. JList (map (\<lambda>p. JDict (dump_PortfolioProject p)) ps)) r, e'))"

subsection \<open>\<open>POST /api/contact\<close>\<close>

type_synonym ContactIn = ContactMessage

definition submit_contact :: "ContactIn \<Rightarrow> env \<Rightarrow> json outcome \<times> env" where
  "submit_contact payload e =
     (case create_document (py ''contactmessage'') (dump_ContactMessage payload) e of
        (Inr i, e') \<Rightarrow> (Return (JDict [(py ''ok'', JBool True), (py ''id'', JStr i)]), e')
      | (Inl ex, e') \<Rightarrow> (HTTPError 500 (str_exn ex), e'))"

text \<open>
  The route: the framework checks the body against \<open>ContactIn\<close> first and answers 422
  itself when the check fails; the handler runs only on a validated payload.
\<close>

definition POST_api_contact :: "validators \<Rightarrow> json \<Rightarrow> env \<Rightarrow> json outcome \<times> env" where
  "POST_api_contact V body e =
     (case body of
        JDict kw \<Rightarrow>
          (case validate_ContactMessage V kw of
             Inl ex \<Rightarrow> (HTTPError 422 (str_exn ex), e)
           | Inr payload \<Rightarrow> submit_contact payload e)
      | _ \<Rightarrow> (HTTPError 422 (py ''ContactIn''), e))"

subsection \<open>\<open>POST /api/seed\<close>\<close>

record SeedRequest =
  with_demo :: bool

definition demo_profile :: document where
  "demo_profile =
     [(py ''name'', JStr (py ''Legas Yasin'')),
      (py ''role'', JStr (py ''Web Developer'')),
      (py ''bio'', JStr (py ''I build vibrant, modern, and high-performance web experiences.'')),
      (py ''location'', JStr (py ''Addis Ababa, Ethiopia'')),
      (py ''avatar'', JNull),
      (py ''socials'', JDict
         [(py ''github'', JStr (py ''https://github.com/'')),
          (py ''twitter'', JNull),
          (py ''linkedin'', JStr (py ''https://www.linkedin.com/'')),
          (py ''website'', JStr (py ''https://example.com''))]),
      (py ''skills'', JList
         [JStr (py ''React''), JStr (py ''Tailwind CSS''), JStr (py ''Framer Motion''),
          JStr (py ''FastAPI''), JStr (py ''MongoDB'')])]"

definition sample :: "document list" where
  "sample =
     [[(py ''title'', JStr (py ''ColorSplash Landing'')),
       (py ''description'',
          JStr (py ''Vibrant landing page with animated gradients and responsive design.'')),
       (py ''image'', JStr (py ''/images/project-1.jpg'')),
       (py ''tags'', JList [JStr (py ''React''), JStr (py ''Tailwind'')]),
       (py ''url'', JNull),
       (py ''repo'', JNull)],
      [(py ''title'', JStr (py ''Portfolio Grid'')),
       (py ''description'',
          JStr (py ''Masonry grid of projects with smooth hover effects and modals.'')),
       (py ''image'', JStr (py ''/images/project-2.jpg'')),
       (py ''tags'', JList [JStr (py ''React''), JStr (py ''Framer Motion'')]),
       (py ''url'', JNull),
       (py ''repo'', JNull)],
      [(py ''title'', JStr (py ''API Dashboard'')),
       (py ''description'',
          JStr (py ''Clean dashboard consuming REST APIs with reusable components.'')),
       (py ''image'', JStr (py ''/images/project-3.jpg'')),
       (py ''tags'', JList [JStr (py ''React''), JStr (py ''API'')]),
       (py ''url'', JNull),
       (py ''repo'', JNull)]]"

text \<open>\<open>for p in sample: create_document("portfolioproject", p)\<close>; the first failure ends it.\<close>

fun create_each :: "document list \<Rightarrow> env \<Rightarrow> (exn + unit) \<times> env" where
  "create_each [] e = (Inr (), e)"
| "create_each (p # ps) e =
     (case create_document (py ''portfolioproject'') p e of
        (Inl ex, e') \<Rightarrow> (Inl ex, e')
      | (Inr _, e') \<Rightarrow> create_each ps e')"

text \<open>The body of the \<open>try\<close> of \<open>seed_content\<close>.\<close>

definition seed_body :: "SeedRequest \<Rightarrow> env \<Rightarrow> (exn + json) \<times> env" where
  "seed_body req =
     (if with_demo req then
        and_then (count_documents (py ''portfolioprofile'')) (\<lambda>n.
        and_then
          (if n = 0 then
             and_then (create_document (py ''portfolioprofile'') demo_profile) (\<lambda>_ e. (Inr (), e))
           else (\<lambda>e. (Inr (), e))) (\<lambda>_.
        and_then (count_documents (py ''portfolioproject'')) (\<lambda>m.
        and_then (if m = 0 then create_each sample else (\<lambda>e. (Inr (), e))) (\<lambda>_ e.
          (Inr (JDict [(py ''ok'', JBool True)]), e)))))
      else (\<lambda>e. (Inr (JDict [(py ''ok'', JBool True)]), e)))"

definition seed_content :: "SeedRequest \<Rightarrow> env \<Rightarrow> json outcome \<times> env" where
  "seed_content req e =
     (case seed_body req e of
        (Inr v, e') \<Rightarrow> (Return v, e')
      | (Inl ex, e') \<Rightarrow> (HTTPError 500 (str_exn ex), e'))"

text \<open>A store that refuses none of the four operations seeding makes.\<close>

definition accepts_seeding :: "store \<Rightarrow> bool" where
  "accepts_seeding d =
     (rejects d (OpCount (py ''portfolioprofile'')) = None \<and>
      rejects d (OpCreate (py ''portfolioprofile'')) = None \<and>
      rejects d (OpCount (py ''portfolioproject'')) = None \<and>
      rejects d (OpCreate (py ''portfolioproject'')) = None)"

section \<open>Concrete inputs\<close>

text \<open>
  An instance of the two format checks, for evaluating the routes on concrete requests: a
  URL is any non-empty string, an address any string with the sign @ (code point 64).
\<close>

definition demo_validators :: validators where
  "demo_validators =
     \<lparr>http_url = (\<lambda>s. if s = [] then None else Some s),
      email_str = (\<lambda>s. if 64 \<in> set s then Some s else None)\<rparr>"

text \<open>A process that started without a connection.\<close>

definition no_connection :: env where
  "no_connection = \<lparr>db = None, DATABASE_URL = None, calls = []\<rparr>"

text \<open>
  An empty store that refuses nothing; its identifiers are \<open>"1"\<close>, \<open>"11"\<close>, \<open>"111"\<close>, ...
  (49 is the digit 1). \<open>connected\<close> is a process started on it.
\<close>

definition empty_store :: store where
  "empty_store =
     \<lparr>store.name = Some (py ''portfolio''), contents = [],
      rejects = (\<lambda>op. None),
      new_id = (\<lambda>k. Ident 49 (replicate k 49)), created = 0\<rparr>"

definition connected :: env where
  "connected = startup (Some (py ''mongodb://localhost:27017'')) empty_store"

text \<open>A valid contact form.\<close>

definition ann_body :: document where
  "ann_body = [(py ''name'', JStr (py ''Ann'')), (py ''email'', JStr (py ''ann@example.com'')),
               (py ''message'', JStr (py ''Hello there''))]"

text \<open>A store holding one valid profile and two valid projects.\<close>

definition ann_profile :: document where
  "ann_profile =
     [(py ''_id'', JStr [49]), (py ''name'', JStr (py ''Ann'')), (py ''role'', JStr (py ''Dev'')),
      (py ''bio'', JStr (py ''Hi''))]"

definition small_project :: document where
  "small_project =
     [(py ''_id'', JStr [50]), (py ''title'', JStr (py ''Site'')),
      (py ''description'', JStr (py ''A project''))]"

definition stocked_store :: store where
  "stocked_store =
     empty_store\<lparr>contents :=
        [(py ''portfolioprofile'', [ann_profile]),
         (py ''portfolioproject'', [small_project, small_project])]\<rparr>"

definition stocked_env :: env where
  "stocked_env = connected\<lparr>db := Some stocked_store\<rparr>"

text \<open>A store holding a profile with no \<open>name\<close> and a project with no \<open>title\<close>.\<close>

definition nameless_profile :: document where
  "nameless_profile =
     [(py ''_id'', JStr [49]), (py ''role'', JStr (py ''Dev'')), (py ''bio'', JStr (py ''Hi''))]"

definition untitled_project :: document where
  "untitled_project =
     [(py ''_id'', JStr [50]), (py ''description'', JStr (py ''A project''))]"

definition malformed_env :: env where
  "malformed_env =
     connected\<lparr>db := Some (empty_store\<lparr>contents :=
        [(py ''portfolioprofile'', [nameless_profile]),
         (py ''portfolioproject'', [untitled_project])]\<rparr>)\<rparr>"

text \<open>An empty store whose backend refuses every write to the project collection.\<close>

definition project_writes_refused :: env where
  "project_writes_refused =
     connected\<lparr>db := Some (empty_store\<lparr>rejects :=
       (\<lambda>op. if op = OpCreate (py ''portfolioproject'') then Some (py ''write rejected'')
             else None)\<rparr>)\<rparr>"

section \<open>Properties\<close>

lemma py_eq_iff [simp]: "py a = py b \<longleftrightarrow> a = b"
  unfolding py_def by (rule inj_map_eq_map) (simp add: inj_on_def)

lemma db_connected: "db connected = Some empty_store"
  by (simp add: connected_def startup_def truthy_def py_def)

subsection \<open>The store\<close>

lemma str_ident_nonempty: "str_ident i \<noteq> []"
  by (cases i) simp

lemma create_document_ok:
  "db e = Some d \<Longrightarrow> rejects d (OpCreate c) = None \<Longrightarrow>
   create_document c doc e =
     (Inr (str_ident (new_id d (created d))),
      called (OpCreate c)
        (e\<lparr>db := Some (d\<lparr>contents :=
                AList.update c (documents d c @ [(py ''_id'', JStr (str_ident (new_id d (created d)))) # doc])
                  (contents d),
              created := Suc (created d)\<rparr>)\<rparr>))"
  by (simp add: create_document_def Let_def)

lemma create_document_fails:
  "db e = None \<or> (\<exists>d m. db e = Some d \<and> rejects d (OpCreate c) = Some m) \<Longrightarrow>
   \<exists>m. create_document c doc e = (Inl (StoreError m), called (OpCreate c) e)"
  by (auto simp: create_document_def)

lemma create_document_effect:
  assumes "db e = Some d" and "rejects d (OpCreate c) = None"
  shows "\<exists>d'. create_document c doc e
             = (Inr (str_ident (new_id d (created d))), e\<lparr>db := Some d', calls := calls e @ [OpCreate c]\<rparr>) \<and>
           rejects d' = rejects d \<and>
           documents d' c = documents d c @ [(py ''_id'', JStr (str_ident (new_id d (created d)))) # doc] \<and>
           (\<forall>c'. c' \<noteq> c \<longrightarrow> documents d' c' = documents d c')"
proof -
  let ?d' = "d\<lparr>contents :=
                AList.update c (documents d c @ [(py ''_id'', JStr (str_ident (new_id d (created d)))) # doc])
                  (contents d),
              created := Suc (created d)\<rparr>"
  have "create_document c doc e
          = (Inr (str_ident (new_id d (created d))), e\<lparr>db := Some ?d', calls := calls e @ [OpCreate c]\<rparr>)"
    by (simp add: create_document_ok [OF assms] called_def)
  moreover have "rejects ?d' = rejects d"
    by simp
  moreover have "documents ?d' c = documents d c @ [(py ''_id'', JStr (str_ident (new_id d (created d)))) # doc]"
    by (simp add: documents_def update_conv')
  moreover have "\<forall>c'. c' \<noteq> c \<longrightarrow> documents ?d' c' = documents d c'"
    by (simp add: documents_def update_conv')
  ultimately show ?thesis by blast
qed

lemma get_documents_ok:
  "db e = Some d \<Longrightarrow> rejects d (OpList c) = None \<Longrightarrow>
   get_documents c limit e =
     (Inr (case limit of None \<Rightarrow> documents d c | Some n \<Rightarrow> take n (documents d c)),
      called (OpList c) e)"
  by (simp add: get_documents_def)

lemma count_documents_ok:
  "db e = Some d \<Longrightarrow> rejects d (OpCount c) = None \<Longrightarrow>
   count_documents c e = (Inr (length (documents d c)), e\<lparr>calls := calls e @ [OpCount c]\<rparr>)"
  by (simp add: count_documents_def called_def)

subsection \<open>Validation\<close>

lemma str_type_eq_None: "str_type v = None \<longleftrightarrow> (\<forall>s. v \<noteq> JStr s)"
  by (cases v) auto

lemma validate_ContactMessage_rejects:
  "validate_ContactMessage V kw = Inl ex \<Longrightarrow> ex = ValidationError (py ''ContactMessage'')"
  by (auto simp: validate_ContactMessage_def split: option.splits)

lemma short_message_rejected:
  "map_of kw (py ''message'') = Some (JStr m) \<Longrightarrow> length m < 3 \<Longrightarrow>
   validate_ContactMessage V kw = Inl (ValidationError (py ''ContactMessage''))"
  by (auto simp: validate_ContactMessage_def required_def constr_def
      split: option.splits Option.bind_splits)

lemma bad_email_rejected:
  "map_of kw (py ''email'') = Some (JStr a) \<Longrightarrow> email_str V a = None \<Longrightarrow>
   validate_ContactMessage V kw = Inl (ValidationError (py ''ContactMessage''))"
  by (auto simp: validate_ContactMessage_def required_def EmailStr_def
      split: option.splits Option.bind_splits)

lemma valid_contact_accepted:
  "map_of kw (py ''name'') = Some (JStr n) \<Longrightarrow>
   map_of kw (py ''email'') = Some (JStr a) \<Longrightarrow> email_str V a = Some a' \<Longrightarrow>
   map_of kw (py ''message'') = Some (JStr m) \<Longrightarrow> 3 \<le> length m \<Longrightarrow> length m \<le> 5000 \<Longrightarrow>
   validate_ContactMessage V kw = Inr \<lparr>ContactMessage.name = n, email = a', message = m\<rparr>"
  by (simp add: validate_ContactMessage_def required_def EmailStr_def constr_def)

lemma validate_PortfolioProfile_required:
  "validate_PortfolioProfile V kw = Inr p \<Longrightarrow>
   map_of kw (py ''name'') = Some (JStr (PortfolioProfile.name p)) \<and>
   map_of kw (py ''role'') = Some (JStr (role p)) \<and>
   map_of kw (py ''bio'') = Some (JStr (bio p))"
  by (auto simp: validate_PortfolioProfile_def required_def
      split: option.splits Option.bind_splits elim!: str_type.elims)

lemma missing_required_profile_field:
  assumes "map_of kw (py ''name'') = None \<or> map_of kw (py ''role'') = None \<or>
           map_of kw (py ''bio'') = None"
  shows "validate_PortfolioProfile V kw = Inl (ValidationError (py ''PortfolioProfile''))"
proof (cases "validate_PortfolioProfile V kw")
  case (Inl ex)
  then show ?thesis by (auto simp: validate_PortfolioProfile_def split: option.splits)
next
  case (Inr p)
  from validate_PortfolioProfile_required [OF Inr] assms show ?thesis by auto
qed

lemma validate_ann_profile:
  "validate_PortfolioProfile demo_validators (AList.delete (py ''_id'') ann_profile)
     = Inr \<lparr>PortfolioProfile.name = py ''Ann'', role = py ''Dev'', bio = py ''Hi'',
            location = None, avatar = None, socials = default_socials, skills = []\<rparr>"
  by (simp add: ann_profile_def AList.delete_eq validate_PortfolioProfile_def required_def
      with_default_def)

lemma validate_small_project:
  "validate_PortfolioProject demo_validators (AList.delete (py ''_id'') small_project)
     = Inr \<lparr>title = py ''Site'', description = py ''A project'', image = None, tags = [],
            url = None, repo = None\<rparr>"
  by (simp add: small_project_def AList.delete_eq validate_PortfolioProject_def required_def
      with_default_def)

lemma dump_PortfolioProfile_no_id: "map_of (dump_PortfolioProfile p) (py ''_id'') = None"
  by (simp add: dump_PortfolioProfile_def)

lemma dump_PortfolioProject_no_id: "map_of (dump_PortfolioProject p) (py ''_id'') = None"
  by (simp add: dump_PortfolioProject_def)

subsection \<open>\<open>POST /api/contact\<close>\<close>

text \<open>
  C1, as the code has it. For a body that is a valid contact message (a string \<open>name\<close>, an
  \<open>email\<close> the format check accepts, a \<open>message\<close> of 3 to 5000 characters): when the store
  is connected and accepts the write, the route returns \<open>{ok: true, id: i}\<close> where \<open>i\<close> is
  the identifier the store generated, a non-empty string, and the contact collection has
  gained the record under \<open>i\<close>; when the store is not connected or refuses the write, the
  route answers with status 500.
\<close>

theorem contact_valid_body_is_stored:
  assumes "map_of kw (py ''name'') = Some (JStr n)"
    and "map_of kw (py ''email'') = Some (JStr a)" and "email_str V a = Some a'"
    and "map_of kw (py ''message'') = Some (JStr m)" and "3 \<le> length m" and "length m \<le> 5000"
  shows "(\<forall>d. db e = Some d \<longrightarrow> rejects d (OpCreate (py ''contactmessage'')) = None \<longrightarrow>
            (\<exists>i e' d'. POST_api_contact V (JDict kw) e
                 = (Return (JDict [(py ''ok'', JBool True), (py ''id'', JStr i)]), e') \<and>
               i = str_ident (new_id d (created d)) \<and> i \<noteq> [] \<and> db e' = Some d' \<and>
               documents d' (py ''contactmessage'')
                 = documents d (py ''contactmessage'') @
                   [(py ''_id'', JStr i) #
                    dump_ContactMessage \<lparr>ContactMessage.name = n, email = a', message = m\<rparr>])) \<and>
         (db e = None \<or>
            (\<exists>d t. db e = Some d \<and> rejects d (OpCreate (py ''contactmessage'')) = Some t) \<longrightarrow>
            (\<exists>detail. POST_api_contact V (JDict kw) e
                 = (HTTPError 500 detail, called (OpCreate (py ''contactmessage'')) e)))"
proof (intro conjI allI impI)
  fix d
  assume "db e = Some d" and "rejects d (OpCreate (py ''contactmessage'')) = None"
  then show "\<exists>i e' d'. POST_api_contact V (JDict kw) e
                 = (Return (JDict [(py ''ok'', JBool True), (py ''id'', JStr i)]), e') \<and>
               i = str_ident (new_id d (created d)) \<and> i \<noteq> [] \<and> db e' = Some d' \<and>
               documents d' (py ''contactmessage'')
                 = documents d (py ''contactmessage'') @
                   [(py ''_id'', JStr i) #
                    dump_ContactMessage \<lparr>ContactMessage.name = n, email = a', message = m\<rparr>]"
    by (simp add: POST_api_contact_def submit_contact_def valid_contact_accepted [OF assms]
        create_document_ok called_def documents_def update_conv' str_ident_nonempty)
next
  assume down: "db e = None \<or>
    (\<exists>d t. db e = Some d \<and> rejects d (OpCreate (py ''contactmessage'')) = Some t)"
  from create_document_fails [OF down,
      of "dump_ContactMessage \<lparr>ContactMessage.name = n, email = a', message = m\<rparr>"]
  show "\<exists>detail. POST_api_contact V (JDict kw) e
          = (HTTPError 500 detail, called (OpCreate (py ''contactmessage'')) e)"
    by (auto simp: POST_api_contact_def submit_contact_def valid_contact_accepted [OF assms])
qed

text \<open>The theorem at a concrete request: Ann's form, posted to a process on the empty store.\<close>

theorem contact_valid_body_witness:
  "db connected = Some empty_store \<and>
   rejects empty_store (OpCreate (py ''contactmessage'')) = None \<and>
   (\<exists>e' d'. POST_api_contact demo_validators (JDict ann_body) connected
             = (Return (JDict [(py ''ok'', JBool True), (py ''id'', JStr [49])]), e') \<and>
           db e' = Some d' \<and>
           documents d' (py ''contactmessage'')
             = documents empty_store (py ''contactmessage'') @
               [(py ''_id'', JStr [49]) #
                dump_ContactMessage \<lparr>ContactMessage.name = py ''Ann'',
                  email = py ''ann@example.com'', message = py ''Hello there''\<rparr>])"
proof -
  have "email_str demo_validators (py ''ann@example.com'') = Some (py ''ann@example.com'')"
    by (simp add: demo_validators_def) (simp add: py_def)
  moreover have "3 \<le> length (py ''Hello there'')" "length (py ''Hello there'') \<le> 5000"
    by (simp_all add: py_def)
  moreover have "map_of ann_body (py ''name'') = Some (JStr (py ''Ann''))"
    "map_of ann_body (py ''email'') = Some (JStr (py ''ann@example.com''))"
    "map_of ann_body (py ''message'') = Some (JStr (py ''Hello there''))"
    by (simp_all add: ann_body_def)
  moreover have r: "rejects empty_store (OpCreate (py ''contactmessage'')) = None"
    by (simp add: empty_store_def)
  moreover have "str_ident (new_id empty_store (created empty_store)) = [49]"
    by (simp add: empty_store_def)
  ultimately have
    "\<exists>i e' d'. POST_api_contact demo_validators (JDict ann_body) connected
         = (Return (JDict [(py ''ok'', JBool True), (py ''id'', JStr i)]), e') \<and>
       i = [49] \<and> i \<noteq> [] \<and> db e' = Some d' \<and>
       documents d' (py ''contactmessage'')
         = documents empty_store (py ''contactmessage'') @
           [(py ''_id'', JStr i) #
            dump_ContactMessage \<lparr>ContactMessage.name = py ''Ann'',
              email = py ''ann@example.com'', message = py ''Hello there''\<rparr>]"
    using contact_valid_body_is_stored [of ann_body "py ''Ann''" "py ''ann@example.com''"
        demo_validators "py ''ann@example.com''" "py ''Hello there''" connected]
      db_connected
    by auto
  with db_connected r show ?thesis by blast
qed

text \<open>
  C1 as stated fails when the store is down: the same valid form, posted to a process
  without a connection, is answered with status 500 and no identifier.
\<close>

theorem contact_valid_body_store_down:
  "validate_ContactMessage demo_validators ann_body
     = Inr \<lparr>ContactMessage.name = py ''Ann'', email = py ''ann@example.com'',
            message = py ''Hello there''\<rparr> \<and>
   POST_api_contact demo_validators (JDict ann_body) no_connection
     = (HTTPError 500 unavailable, called (OpCreate (py ''contactmessage'')) no_connection)"
proof -
  have v: "validate_ContactMessage demo_validators ann_body
     = Inr \<lparr>ContactMessage.name = py ''Ann'', email = py ''ann@example.com'',
            message = py ''Hello there''\<rparr>"
    unfolding ann_body_def
    by (rule valid_contact_accepted [where a = "py ''ann@example.com''"])
       (simp_all add: demo_validators_def, simp_all add: py_def)
  show ?thesis
    by (simp add: v POST_api_contact_def submit_contact_def create_document_def
        no_connection_def)
qed

text \<open>
  C2. A body of \<open>POST /api/contact\<close> whose message has 0, 1 or 2 characters, or whose
  email the format check refuses, is answered with a client error (status 422), and the
  environment is returned as it was: no store call is made and no record is created.
\<close>

theorem contact_invalid_body_is_client_error:
  assumes "(\<exists>m. map_of kw (py ''message'') = Some (JStr m) \<and> length m \<le> 2) \<or>
           (\<exists>a. map_of kw (py ''email'') = Some (JStr a) \<and> email_str V a = None)"
  shows "\<exists>st detail. POST_api_contact V (JDict kw) e = (HTTPError st detail, e) \<and>
           400 \<le> st \<and> st < 500"
proof -
  from assms have "validate_ContactMessage V kw = Inl (ValidationError (py ''ContactMessage''))"
  proof
    assume "\<exists>m. map_of kw (py ''message'') = Some (JStr m) \<and> length m \<le> 2"
    then obtain m where "map_of kw (py ''message'') = Some (JStr m)" and "length m < 3"
      by auto
    then show ?thesis by (rule short_message_rejected)
  next
    assume "\<exists>a. map_of kw (py ''email'') = Some (JStr a) \<and> email_str V a = None"
    then show ?thesis by (auto intro: bad_email_rejected)
  qed
  then show ?thesis by (simp add: POST_api_contact_def)
qed

text \<open>The theorem at the body with the email \<open>not-an-email\<close> and the message \<open>hi\<close>.\<close>

theorem contact_invalid_body_witness:
  "(\<exists>a. map_of [(py ''name'', JStr (py ''Ann'')), (py ''email'', JStr (py ''not-an-email'')),
                  (py ''message'', JStr (py ''hi''))] (py ''email'') = Some (JStr a) \<and>
        email_str demo_validators a = None) \<and>
   (\<exists>st detail.
      POST_api_contact demo_validators
        (JDict [(py ''name'', JStr (py ''Ann'')), (py ''email'', JStr (py ''not-an-email'')),
                (py ''message'', JStr (py ''hi''))]) no_connection
      = (HTTPError st detail, no_connection) \<and> 400 \<le> st \<and> st < 500)"
proof -
  have h: "\<exists>a. map_of [(py ''name'', JStr (py ''Ann'')), (py ''email'', JStr (py ''not-an-email'')),
                  (py ''message'', JStr (py ''hi''))] (py ''email'') = Some (JStr a) \<and>
        email_str demo_validators a = None"
    by (simp add: demo_validators_def py_def)
  from h contact_invalid_body_is_client_error [OF disjI2, OF h, of no_connection]
  show ?thesis by blast
qed

subsection \<open>The profile schema\<close>

text \<open>
  C8, as the code has it. \<open>name\<close> is a required string with no length bound: a profile that
  validation accepts has a string in \<open>name\<close>; one with no \<open>name\<close>, or with a \<open>name\<close> that is
  not a string, is rejected; and an empty \<open>name\<close> is accepted wherever any name is.
\<close>

theorem profile_name_is_required_string:
  "(validate_PortfolioProfile V kw = Inr p \<longrightarrow>
      map_of kw (py ''name'') = Some (JStr (PortfolioProfile.name p))) \<and>
   ((\<forall>s. map_of kw (py ''name'') \<noteq> Some (JStr s)) \<longrightarrow>
      validate_PortfolioProfile V kw = Inl (ValidationError (py ''PortfolioProfile''))) \<and>
   (validate_PortfolioProfile V kw = Inr p \<longrightarrow>
      validate_PortfolioProfile V ((py ''name'', JStr []) # kw)
        = Inr (p\<lparr>PortfolioProfile.name := []\<rparr>))"
proof (intro conjI impI)
  assume "validate_PortfolioProfile V kw = Inr p"
  from validate_PortfolioProfile_required [OF this]
  show "map_of kw (py ''name'') = Some (JStr (PortfolioProfile.name p))"
    by simp
next
  assume "\<forall>s. map_of kw (py ''name'') \<noteq> Some (JStr s)"
  then have "required kw (py ''name'') str_type = None"
    by (auto simp: required_def str_type_eq_None split: option.splits)
  then show "validate_PortfolioProfile V kw = Inl (ValidationError (py ''PortfolioProfile''))"
    by (simp add: validate_PortfolioProfile_def)
next
  assume "validate_PortfolioProfile V kw = Inr p"
  then show "validate_PortfolioProfile V ((py ''name'', JStr []) # kw)
        = Inr (p\<lparr>PortfolioProfile.name := []\<rparr>)"
    by (auto simp: validate_PortfolioProfile_def required_def with_default_def
        split: option.splits Option.bind_splits)
qed

text \<open>The theorem at Ann's profile, and at the same profile with the name emptied.\<close>

theorem profile_name_witness:
  "validate_PortfolioProfile demo_validators
     [(py ''name'', JStr (py ''Ann'')), (py ''role'', JStr (py ''Dev'')), (py ''bio'', JStr (py ''Hi''))]
     = Inr \<lparr>PortfolioProfile.name = py ''Ann'', role = py ''Dev'', bio = py ''Hi'',
          location = None, avatar = None, socials = default_socials, skills = []\<rparr> \<and>
   validate_PortfolioProfile demo_validators
     ((py ''name'', JStr []) #
      [(py ''name'', JStr (py ''Ann'')), (py ''role'', JStr (py ''Dev'')), (py ''bio'', JStr (py ''Hi''))])
     = Inr \<lparr>PortfolioProfile.name = [], role = py ''Dev'', bio = py ''Hi'',
          location = None, avatar = None, socials = default_socials, skills = []\<rparr>"
proof -
  have v: "validate_PortfolioProfile demo_validators
     [(py ''name'', JStr (py ''Ann'')), (py ''role'', JStr (py ''Dev'')), (py ''bio'', JStr (py ''Hi''))]
     = Inr \<lparr>PortfolioProfile.name = py ''Ann'', role = py ''Dev'', bio = py ''Hi'',
          location = None, avatar = None, socials = default_socials, skills = []\<rparr>"
    by (simp add: validate_PortfolioProfile_def required_def with_default_def)
  from v profile_name_is_required_string [of demo_validators
     "[(py ''name'', JStr (py ''Ann'')), (py ''role'', JStr (py ''Dev'')), (py ''bio'', JStr (py ''Hi''))]"
     "\<lparr>PortfolioProfile.name = py ''Ann'', role = py ''Dev'', bio = py ''Hi'',
          location = None, avatar = None, socials = default_socials, skills = []\<rparr>"]
  show ?thesis by simp
qed

text \<open>C8 as stated fails: a profile whose \<open>name\<close> is the empty string is accepted.\<close>

theorem profile_empty_name_accepted:
  "validate_PortfolioProfile demo_validators
     [(py ''name'', JStr []), (py ''role'', JStr (py ''Web Developer'')),
      (py ''bio'', JStr (py ''Hello''))]
   = Inr \<lparr>PortfolioProfile.name = [], role = py ''Web Developer'', bio = py ''Hello'',
          location = None, avatar = None, socials = default_socials, skills = []\<rparr>"
  by (simp add: validate_PortfolioProfile_def required_def with_default_def)

subsection \<open>\<open>GET /api/profile\<close>\<close>

text \<open>
  C4, as the code has it. When the store is connected and accepts the read: \<open>GET /api/profile\<close>
  returns null if the profile collection is empty; otherwise it takes the first stored
  document, removes \<open>_id\<close>, and, when that document passes the profile schema, returns the
  one profile object built from it, which has no \<open>_id\<close> field and the document's \<open>name\<close>,
  \<open>role\<close> and \<open>bio\<close>.
\<close>

theorem get_profile_null_or_first_valid:
  assumes "db e = Some d" and "rejects d (OpList (py ''portfolioprofile'')) = None"
  shows "(documents d (py ''portfolioprofile'') = [] \<longrightarrow>
            GET_api_profile V e = (Return JNull, called (OpList (py ''portfolioprofile'')) e)) \<and>
         (\<forall>doc rest p.
            documents d (py ''portfolioprofile'') = doc # rest \<longrightarrow>
            validate_PortfolioProfile V (AList.delete (py ''_id'') doc) = Inr p \<longrightarrow>
              GET_api_profile V e
                = (Return (JDict (dump_PortfolioProfile p)),
                   called (OpList (py ''portfolioprofile'')) e) \<and>
              map_of (dump_PortfolioProfile p) (py ''_id'') = None \<and>
              map_of doc (py ''name'') = Some (JStr (PortfolioProfile.name p)) \<and>
              map_of doc (py ''role'') = Some (JStr (role p)) \<and>
              map_of doc (py ''bio'') = Some (JStr (bio p)))"
proof (intro conjI allI impI)
  assume "documents d (py ''portfolioprofile'') = []"
  then show "GET_api_profile V e = (Return JNull, called (OpList (py ''portfolioprofile'')) e)"
    by (simp add: GET_api_profile_def get_profile_def get_documents_ok [OF assms])
next
  fix doc rest p
  assume docs: "documents d (py ''portfolioprofile'') = doc # rest"
    and v: "validate_PortfolioProfile V (AList.delete (py ''_id'') doc) = Inr p"
  show "GET_api_profile V e
          = (Return (JDict (dump_PortfolioProfile p)), called (OpList (py ''portfolioprofile'')) e)"
    by (simp add: GET_api_profile_def get_profile_def get_documents_ok [OF assms] docs v)
  show "map_of (dump_PortfolioProfile p) (py ''_id'') = None"
    by (rule dump_PortfolioProfile_no_id)
  from validate_PortfolioProfile_required [OF v]
  show "map_of doc (py ''name'') = Some (JStr (PortfolioProfile.name p))"
    and "map_of doc (py ''role'') = Some (JStr (role p))"
    and "map_of doc (py ''bio'') = Some (JStr (bio p))"
    by simp_all
qed

text \<open>The theorem at the store that holds Ann's profile.\<close>

theorem get_profile_witness:
  "db stocked_env = Some stocked_store \<and>
   rejects stocked_store (OpList (py ''portfolioprofile'')) = None \<and>
   documents stocked_store (py ''portfolioprofile'') = [ann_profile] \<and>
   GET_api_profile demo_validators stocked_env
     = (Return (JDict (dump_PortfolioProfile
          \<lparr>PortfolioProfile.name = py ''Ann'', role = py ''Dev'', bio = py ''Hi'',
            location = None, avatar = None, socials = default_socials, skills = []\<rparr>)),
        called (OpList (py ''portfolioprofile'')) stocked_env)"
proof -
  have a: "db stocked_env = Some stocked_store"
    by (simp add: stocked_env_def)
  have b: "rejects stocked_store (OpList (py ''portfolioprofile'')) = None"
    by (simp add: stocked_store_def empty_store_def)
  have c: "documents stocked_store (py ''portfolioprofile'') = [ann_profile]"
    by (simp add: stocked_store_def documents_def)
  from get_profile_null_or_first_valid [OF a b, of demo_validators] c validate_ann_profile
  show ?thesis using a b by blast
qed

text \<open>
  C4 as stated fails: the profile collection is not empty, its only document has no \<open>name\<close>,
  and the request ends in a \<open>ValidationError\<close> instead of a profile object.
\<close>

theorem profile_stored_without_name_fails:
  "db malformed_env \<noteq> None \<and>
   documents (the (db malformed_env)) (py ''portfolioprofile'') = [nameless_profile] \<and>
   GET_api_profile demo_validators malformed_env
     = (Raised (ValidationError (py ''PortfolioProfile'')),
        called (OpList (py ''portfolioprofile'')) malformed_env)"
  by (simp add: GET_api_profile_def get_profile_def get_documents_def malformed_env_def
      connected_def startup_def empty_store_def documents_def nameless_profile_def
      validate_PortfolioProfile_def required_def)

text \<open>
  C10. When the first document of the profile collection has no \<open>name\<close>, no \<open>role\<close> or no
  \<open>bio\<close>, \<open>get_profile\<close> ends in an exception: it returns neither null nor a profile. The
  exception is the schema's \<open>ValidationError\<close> whenever the store accepts the read.
\<close>

theorem get_profile_revalidates:
  assumes "db e = Some d"
    and "documents d (py ''portfolioprofile'') = doc # rest"
    and "map_of doc (py ''name'') = None \<or> map_of doc (py ''role'') = None \<or>
         map_of doc (py ''bio'') = None"
  shows "\<exists>ex. get_profile V e = (Raised ex, called (OpList (py ''portfolioprofile'')) e) \<and>
          (rejects d (OpList (py ''portfolioprofile'')) = None \<longrightarrow>
             ex = ValidationError (py ''PortfolioProfile''))"
proof -
  have "validate_PortfolioProfile V (AList.delete (py ''_id'') doc)
          = Inl (ValidationError (py ''PortfolioProfile''))"
    using assms(3) by (intro missing_required_profile_field) simp
  then show ?thesis
    using assms(1,2)
    by (auto simp: get_profile_def get_documents_def split: option.splits)
qed

text \<open>The theorem at the store whose profile has no \<open>name\<close>.\<close>

theorem get_profile_revalidates_witness:
  "documents (empty_store\<lparr>contents := [(py ''portfolioprofile'', [nameless_profile])]\<rparr>)
     (py ''portfolioprofile'') = [nameless_profile] \<and>
   map_of nameless_profile (py ''name'') = None \<and>
   get_profile demo_validators
     (connected\<lparr>db := Some (empty_store\<lparr>contents :=
        [(py ''portfolioprofile'', [nameless_profile])]\<rparr>)\<rparr>)
   = (Raised (ValidationError (py ''PortfolioProfile'')),
      called (OpList (py ''portfolioprofile''))
       (connected\<lparr>db := Some (empty_store\<lparr>contents :=
          [(py ''portfolioprofile'', [nameless_profile])]\<rparr>)\<rparr>))"
proof -
  let ?d = "empty_store\<lparr>contents := [(py ''portfolioprofile'', [nameless_profile])]\<rparr>"
  have a: "db (connected\<lparr>db := Some ?d\<rparr>) = Some ?d" by simp
  have b: "documents ?d (py ''portfolioprofile'') = nameless_profile # []"
    by (simp add: documents_def)
  have c: "map_of nameless_profile (py ''name'') = None"
    by (simp add: nameless_profile_def)
  have r: "rejects ?d (OpList (py ''portfolioprofile'')) = None"
    by (simp add: empty_store_def)
  from get_profile_revalidates [OF a b disjI1, OF c, of demo_validators] r b c
  show ?thesis by auto
qed

subsection \<open>\<open>GET /api/projects\<close>\<close>

lemma list_projects_loop_valid:
  "list_all2 (\<lambda>d p. validate_PortfolioProject V (AList.delete (py ''_id'') d) = Inr p) items ps \<Longrightarrow>
   list_projects_loop V items acc = Inr (acc @ ps)"
  by (induction items ps arbitrary: acc rule: list_all2_induct) simp_all

lemma all_valid_projects:
  "\<forall>d\<in>set items. \<exists>p. validate_PortfolioProject V (AList.delete (py ''_id'') d) = Inr p \<Longrightarrow>
   \<exists>ps. list_all2 (\<lambda>d p. validate_PortfolioProject V (AList.delete (py ''_id'') d) = Inr p) items ps"
proof (induction items)
  case Nil
  then show ?case by simp
next
  case (Cons d items)
  then obtain p ps where
    "validate_PortfolioProject V (AList.delete (py ''_id'') d) = Inr p"
    "list_all2 (\<lambda>d p. validate_PortfolioProject V (AList.delete (py ''_id'') d) = Inr p) items ps"
    by auto
  then have "list_all2 (\<lambda>d p. validate_PortfolioProject V (AList.delete (py ''_id'') d) = Inr p)
               (d # items) (p # ps)"
    by simp
  then show ?case by blast
qed

text \<open>
  C5, as the code has it. When the store is connected and accepts the read, and every
  stored project document (with \<open>_id\<close> removed) passes the project schema:
  \<open>GET /api/projects\<close> returns an array with one project per stored document, in storage
  order, so of the same length, and empty when nothing is stored; no element has an
  \<open>_id\<close> field.
\<close>

theorem list_projects_one_per_valid_record:
  assumes "db e = Some d" and "rejects d (OpList (py ''portfolioproject'')) = None"
    and valid: "\<forall>doc\<in>set (documents d (py ''portfolioproject'')).
             \<exists>p. validate_PortfolioProject V (AList.delete (py ''_id'') doc) = Inr p"
  shows "\<exists>ps. GET_api_projects V e
             = (Return (JList (map (\<lambda>p. JDict (dump_PortfolioProject p)) ps)),
                called (OpList (py ''portfolioproject'')) e) \<and>
           length ps = length (documents d (py ''portfolioproject'')) \<and>
           (documents d (py ''portfolioproject'') = [] \<longrightarrow> ps = []) \<and>
           list_all2 (\<lambda>doc p. validate_PortfolioProject V (AList.delete (py ''_id'') doc) = Inr p)
             (documents d (py ''portfolioproject'')) ps \<and>
           (\<forall>p\<in>set ps. map_of (dump_PortfolioProject p) (py ''_id'') = None)"
proof -
  from all_valid_projects [OF valid] obtain ps where
    ps: "list_all2 (\<lambda>doc p. validate_PortfolioProject V (AList.delete (py ''_id'') doc) = Inr p)
           (documents d (py ''portfolioproject'')) ps"
    by blast
  have "GET_api_projects V e
          = (Return (JList (map (\<lambda>p. JDict (dump_PortfolioProject p)) ps)),
             called (OpList (py ''portfolioproject'')) e)"
    using list_projects_loop_valid [OF ps, of "[]"]
    by (simp add: GET_api_projects_def list_projects_def get_documents_ok [OF assms(1,2)])
  moreover have "length ps = length (documents d (py ''portfolioproject''))"
    using ps by (simp add: list_all2_lengthD)
  ultimately show ?thesis
    using ps by (auto simp: dump_PortfolioProject_no_id)
qed

text \<open>The theorem at the store that holds two projects.\<close>

theorem list_projects_witness:
  "db stocked_env = Some stocked_store \<and>
   length (documents stocked_store (py ''portfolioproject'')) = 2 \<and>
   (\<exists>ps. GET_api_projects demo_validators stocked_env
             = (Return (JList (map (\<lambda>p. JDict (dump_PortfolioProject p)) ps)),
                called (OpList (py ''portfolioproject'')) stocked_env) \<and>
          length ps = 2)"
proof -
  have a: "db stocked_env = Some stocked_store"
    by (simp add: stocked_env_def)
  have b: "rejects stocked_store (OpList (py ''portfolioproject'')) = None"
    by (simp add: stocked_store_def empty_store_def)
  have c: "documents stocked_store (py ''portfolioproject'') = [small_project, small_project]"
    by (simp add: stocked_store_def documents_def)
  have v: "\<forall>doc\<in>set (documents stocked_store (py ''portfolioproject'')).
             \<exists>p. validate_PortfolioProject demo_validators (AList.delete (py ''_id'') doc) = Inr p"
    by (simp add: c validate_small_project)
  from list_projects_one_per_valid_record [OF a b v] a c
  show ?thesis by auto
qed

text \<open>
  C5 as stated fails: one project document is stored, it has no \<open>title\<close>, and the request
  ends in a \<open>ValidationError\<close> instead of an array of length one.
\<close>

theorem project_stored_without_title_fails:
  "db malformed_env \<noteq> None \<and>
   documents (the (db malformed_env)) (py ''portfolioproject'') = [untitled_project] \<and>
   GET_api_projects demo_validators malformed_env
     = (Raised (ValidationError (py ''PortfolioProject'')),
        called (OpList (py ''portfolioproject'')) malformed_env)"
  by (simp add: GET_api_projects_def list_projects_def get_documents_def malformed_env_def
      connected_def startup_def empty_store_def documents_def untitled_project_def
      validate_PortfolioProject_def required_def)

subsection \<open>Store failures\<close>

text \<open>
  C6 does not hold of the read handlers. With no connection, \<open>get_profile\<close> and
  \<open>list_projects\<close> let the store's exception leave the handler, where \<open>submit_contact\<close> and
  \<open>seed_content\<close> catch it and answer with status 500.
\<close>

theorem read_handlers_let_store_errors_escape:
  "get_profile V \<lparr>db = None, DATABASE_URL = u, calls = cs\<rparr>
     = (Raised (StoreError unavailable),
        \<lparr>db = None, DATABASE_URL = u, calls = cs @ [OpList (py ''portfolioprofile'')]\<rparr>) \<and>
   list_projects V \<lparr>db = None, DATABASE_URL = u, calls = cs\<rparr>
     = (Raised (StoreError unavailable),
        \<lparr>db = None, DATABASE_URL = u, calls = cs @ [OpList (py ''portfolioproject'')]\<rparr>) \<and>
   submit_contact p \<lparr>db = None, DATABASE_URL = u, calls = cs\<rparr>
     = (HTTPError 500 unavailable,
        \<lparr>db = None, DATABASE_URL = u, calls = cs @ [OpCreate (py ''contactmessage'')]\<rparr>) \<and>
   seed_content \<lparr>with_demo = True\<rparr> \<lparr>db = None, DATABASE_URL = u, calls = cs\<rparr>
     = (HTTPError 500 not_subscriptable, \<lparr>db = None, DATABASE_URL = u, calls = cs\<rparr>)"
  by (simp add: get_profile_def list_projects_def submit_contact_def seed_content_def
      seed_body_def and_then_def get_documents_def create_document_def count_documents_def
      called_def)

subsection \<open>\<open>GET /test\<close>\<close>

text \<open>
  The invariant of the handle holds when the process starts, and every route keeps it:
  no route changes the variable, or creates or drops the handle.
\<close>

lemma same_connection_refl [simp]: "same_connection e e"
  by (simp add: same_connection_def)

lemma same_connection_trans:
  "same_connection e e1 \<Longrightarrow> same_connection e1 e2 \<Longrightarrow> same_connection e e2"
  by (simp add: same_connection_def)

lemma create_document_same: "same_connection e (snd (create_document c doc e))"
  by (simp add: create_document_def same_connection_def called_def Let_def split: option.splits)

lemma get_documents_same: "same_connection e (snd (get_documents c l e))"
  by (simp add: get_documents_def same_connection_def called_def split: option.splits)

lemma count_documents_same: "same_connection e (snd (count_documents c e))"
  by (simp add: count_documents_def same_connection_def called_def split: option.splits)

lemma and_then_same:
  assumes "\<And>s. same_connection s (snd (m s))" and "\<And>a s. same_connection s (snd (f a s))"
  shows "same_connection s (snd (and_then m f s))"
proof (cases "m s")
  case (Pair r s')
  with assms(1) [of s] have 1: "same_connection s s'" by simp
  show ?thesis
  proof (cases r)
    case (Inl ex)
    with Pair 1 show ?thesis by (simp add: and_then_def)
  next
    case (Inr a)
    with Pair have "and_then m f s = f a s'" by (simp add: and_then_def)
    with 1 assms(2) [of s' a] show ?thesis by (auto intro: same_connection_trans)
  qed
qed

lemma create_each_same: "same_connection e (snd (create_each ps e))"
proof (induction ps arbitrary: e)
  case Nil
  show ?case by simp
next
  case (Cons p ps)
  obtain r e' where c: "create_document (py ''portfolioproject'') p e = (r, e')"
    by (cases "create_document (py ''portfolioproject'') p e") blast
  with create_document_same [of e "py ''portfolioproject''" p] have 1: "same_connection e e'"
    by simp
  show ?case
  proof (cases r)
    case (Inl ex)
    with c 1 show ?thesis by simp
  next
    case (Inr i)
    with c have "create_each (p # ps) e = create_each ps e'" by simp
    with 1 Cons.IH [of e'] show ?thesis by (auto intro: same_connection_trans)
  qed
qed

lemma seed_body_same: "same_connection e (snd (seed_body req e))"
  unfolding seed_body_def
  by (auto intro!: and_then_same count_documents_same create_document_same create_each_same)

lemma submit_contact_same: "same_connection e (snd (submit_contact p e))"
  using create_document_same [of e "py ''contactmessage''" "dump_ContactMessage p"]
  by (auto simp: submit_contact_def split: prod.splits sum.splits)

lemma routes_keep_the_connection:
  "same_connection e (snd (test_database e))"
  "same_connection e (snd (get_profile V e))"
  "same_connection e (snd (list_projects V e))"
  "same_connection e (snd (POST_api_contact V body e))"
  "same_connection e (snd (seed_content req e))"
proof -
  show "same_connection e (snd (test_database e))"
    by (simp add: test_database_def same_connection_def called_def Let_def
        split: option.splits sum.splits)
  show "same_connection e (snd (get_profile V e))"
    using get_documents_same [of e "py ''portfolioprofile''" "Some 1"]
    by (auto simp: get_profile_def split: prod.splits sum.splits list.splits)
  show "same_connection e (snd (list_projects V e))"
    using get_documents_same [of e "py ''portfolioproject''" None]
    by (auto simp: list_projects_def split: prod.splits sum.splits)
  show "same_connection e (snd (POST_api_contact V body e))"
    by (auto simp: POST_api_contact_def submit_contact_same split: json.splits sum.splits)
  show "same_connection e (snd (seed_content req e))"
    using seed_body_same [of e req]
    by (auto simp: seed_content_def split: prod.splits sum.splits)
qed

lemma opened_from_environment_kept:
  "same_connection e e' \<Longrightarrow> opened_from_environment e \<Longrightarrow> opened_from_environment e'"
  by (auto simp: same_connection_def opened_from_environment_def)

lemma startup_opened_from_environment: "opened_from_environment (startup u b)"
  by (simp add: opened_from_environment_def startup_def)

text \<open>
  C7. In every environment \<open>test_database\<close> returns a status object, and its \<open>collections\<close>
  holds at most 10 names. When no connection string is set (\<open>DATABASE_URL\<close> is unset or
  empty), in a process whose handle was opened from the environment, \<open>database_url\<close> is
  the cross mark with "Not Set" and \<open>connection_status\<close> is "Not Connected".
\<close>

theorem test_database_never_raises:
  "\<exists>st e'. test_database e = (Return st, e') \<and> length (collections st) \<le> 10 \<and>
     (opened_from_environment e \<longrightarrow> \<not> truthy (DATABASE_URL e) \<longrightarrow>
        database_url st = cross_mark @ py '' Not Set'' \<and>
        connection_status st = py ''Not Connected'')"
  by (auto simp: test_database_def initial_status_def opened_from_environment_def Let_def
      split: option.splits sum.splits)

text \<open>The theorem at the process that started without a connection.\<close>

theorem test_database_witness:
  "opened_from_environment no_connection \<and> \<not> truthy (DATABASE_URL no_connection) \<and>
   (\<exists>st e'. test_database no_connection = (Return st, e') \<and> length (collections st) \<le> 10 \<and>
        database_url st = cross_mark @ py '' Not Set'' \<and>
        connection_status st = py ''Not Connected'')"
proof -
  have h: "opened_from_environment no_connection" "\<not> truthy (DATABASE_URL no_connection)"
    by (simp_all add: opened_from_environment_def no_connection_def truthy_def)
  from test_database_never_raises [of no_connection] h show ?thesis by blast
qed

subsection \<open>\<open>POST /api/seed\<close>\<close>

lemma create_each_effect:
  "db e = Some d \<Longrightarrow> rejects d (OpCreate (py ''portfolioproject'')) = None \<Longrightarrow>
   \<exists>d'. create_each ps e
          = (Inr (), e\<lparr>db := Some d',
                       calls := calls e @ replicate (length ps) (OpCreate (py ''portfolioproject''))\<rparr>) \<and>
        rejects d' = rejects d \<and>
        length (documents d' (py ''portfolioproject''))
          = length (documents d (py ''portfolioproject'')) + length ps \<and>
        (\<forall>c'. c' \<noteq> py ''portfolioproject'' \<longrightarrow> documents d' c' = documents d c')"
proof (induction ps arbitrary: e d)
  case Nil
  then have "e = e\<lparr>db := Some d\<rparr>" by (cases e) simp
  then show ?case by (intro exI [of _ d]) simp
next
  case (Cons p ps)
  from create_document_effect [OF Cons.prems, of p] obtain d1 where
    step: "create_document (py ''portfolioproject'') p e
             = (Inr (str_ident (new_id d (created d))),
                e\<lparr>db := Some d1, calls := calls e @ [OpCreate (py ''portfolioproject'')]\<rparr>)"
    and r1: "rejects d1 = rejects d"
    and docs1: "documents d1 (py ''portfolioproject'')
             = documents d (py ''portfolioproject'') @ [(py ''_id'', JStr (str_ident (new_id d (created d)))) # p]"
    and other1: "\<forall>c'. c' \<noteq> py ''portfolioproject'' \<longrightarrow> documents d1 c' = documents d c'"
    by blast
  let ?e1 = "e\<lparr>db := Some d1, calls := calls e @ [OpCreate (py ''portfolioproject'')]\<rparr>"
  have "db ?e1 = Some d1" by simp
  moreover have "rejects d1 (OpCreate (py ''portfolioproject'')) = None"
    using r1 Cons.prems(2) by simp
  ultimately obtain d' where
    rest: "create_each ps ?e1
          = (Inr (), ?e1\<lparr>db := Some d',
               calls := calls ?e1 @ replicate (length ps) (OpCreate (py ''portfolioproject''))\<rparr>)"
    and r': "rejects d' = rejects d1"
    and len: "length (documents d' (py ''portfolioproject''))
          = length (documents d1 (py ''portfolioproject'')) + length ps"
    and other': "\<forall>c'. c' \<noteq> py ''portfolioproject'' \<longrightarrow> documents d' c' = documents d1 c'"
    using Cons.IH [of ?e1 d1] by blast
  have "create_each (p # ps) e
          = (Inr (), e\<lparr>db := Some d',
               calls := calls e @ replicate (length (p # ps)) (OpCreate (py ''portfolioproject''))\<rparr>)"
    by (simp add: step rest)
  then show ?case
    using r' r1 len docs1 other' other1 by auto
qed

lemma seed_empty_collections:
  assumes "db e = Some d" and acc: "accepts_seeding d"
    and "documents d (py ''portfolioprofile'') = []"
    and "documents d (py ''portfolioproject'') = []"
  shows "\<exists>d'. seed_content \<lparr>with_demo = True\<rparr> e
            = (Return (JDict [(py ''ok'', JBool True)]),
               e\<lparr>db := Some d',
                  calls := calls e @
                    [OpCount (py ''portfolioprofile''), OpCreate (py ''portfolioprofile''),
                     OpCount (py ''portfolioproject''), OpCreate (py ''portfolioproject''),
                     OpCreate (py ''portfolioproject''), OpCreate (py ''portfolioproject'')]\<rparr>) \<and>
          rejects d' = rejects d \<and>
          length (documents d' (py ''portfolioprofile'')) = 1 \<and>
          length (documents d' (py ''portfolioproject'')) = 3"
proof -
  let ?prof = "py ''portfolioprofile''" and ?proj = "py ''portfolioproject''"
  from acc have r: "rejects d (OpCount ?prof) = None" "rejects d (OpCreate ?prof) = None"
    "rejects d (OpCount ?proj) = None" "rejects d (OpCreate ?proj) = None"
    by (simp_all add: accepts_seeding_def)
  let ?e1 = "e\<lparr>calls := calls e @ [OpCount ?prof]\<rparr>"
  have c1: "count_documents ?prof e = (Inr 0, ?e1)"
    using count_documents_ok [OF assms(1) r(1)] assms(3) by simp
  have "db ?e1 = Some d" using assms(1) by simp
  from create_document_effect [OF this r(2), of demo_profile] obtain d1 where
    k1: "create_document ?prof demo_profile ?e1
           = (Inr (str_ident (new_id d (created d))), ?e1\<lparr>db := Some d1, calls := calls ?e1 @ [OpCreate ?prof]\<rparr>)"
    and r1: "rejects d1 = rejects d"
    and p1: "documents d1 ?prof = documents d ?prof @ [(py ''_id'', JStr (str_ident (new_id d (created d)))) # demo_profile]"
    and o1: "\<forall>c'. c' \<noteq> ?prof \<longrightarrow> documents d1 c' = documents d c'"
    by blast
  let ?e2 = "?e1\<lparr>db := Some d1, calls := calls ?e1 @ [OpCreate ?prof]\<rparr>"
  have j1: "documents d1 ?proj = []" using o1 assms(4) by simp
  have db2: "db ?e2 = Some d1" by simp
  have c2: "count_documents ?proj ?e2 = (Inr 0, ?e2\<lparr>calls := calls ?e2 @ [OpCount ?proj]\<rparr>)"
    using count_documents_ok [OF db2, of ?proj] r1 r(3) j1 by simp
  let ?e3 = "?e2\<lparr>calls := calls ?e2 @ [OpCount ?proj]\<rparr>"
  have db3: "db ?e3 = Some d1" by simp
  have "rejects d1 (OpCreate ?proj) = None" using r1 r(4) by simp
  from create_each_effect [OF db3 this, of sample] obtain d' where
    k2: "create_each sample ?e3
          = (Inr (), ?e3\<lparr>db := Some d',
                calls := calls ?e3 @ replicate (length sample) (OpCreate ?proj)\<rparr>)"
    and r': "rejects d' = rejects d1"
    and len: "length (documents d' ?proj) = length (documents d1 ?proj) + length sample"
    and o': "\<forall>c'. c' \<noteq> ?proj \<longrightarrow> documents d' c' = documents d1 c'"
    by blast
  have ls: "length sample = 3" by (simp add: sample_def)
  have "seed_content \<lparr>with_demo = True\<rparr> e
          = (Return (JDict [(py ''ok'', JBool True)]),
             e\<lparr>db := Some d',
                calls := calls e @
                  [OpCount ?prof, OpCreate ?prof, OpCount ?proj, OpCreate ?proj,
                   OpCreate ?proj, OpCreate ?proj]\<rparr>)"
    by (simp add: seed_content_def seed_body_def and_then_def c1 k1 [simplified]
        c2 [simplified] k2 [simplified] ls numeral_3_eq_3)
  moreover have "length (documents d' ?prof) = 1"
    using o' p1 assms(3) by simp
  moreover have "length (documents d' ?proj) = 3"
    using len j1 ls by simp
  ultimately show ?thesis using r' r1 by auto
qed

lemma seed_populated_collections:
  assumes "db e = Some d" and acc: "accepts_seeding d"
    and "documents d (py ''portfolioprofile'') \<noteq> []"
    and "documents d (py ''portfolioproject'') \<noteq> []"
  shows "seed_content \<lparr>with_demo = True\<rparr> e
           = (Return (JDict [(py ''ok'', JBool True)]),
              e\<lparr>calls := calls e @
                   [OpCount (py ''portfolioprofile''), OpCount (py ''portfolioproject'')]\<rparr>)"
  using assms
  by (simp add: seed_content_def seed_body_def and_then_def count_documents_def called_def
      accepts_seeding_def)

text \<open>
  C3, as the code has it. Starting from a connected store with empty profile and project
  collections that accepts the counts and the writes of seeding: two calls of
  \<open>POST /api/seed\<close> with \<open>with_demo\<close> true both return \<open>{ok: true}\<close> and leave exactly one
  profile and exactly three projects; the second call makes the two counts and no insert,
  and leaves the store as the first call left it.
\<close>

theorem seed_twice_is_seed_once:
  assumes "db e = Some d" and "accepts_seeding d"
    and "documents d (py ''portfolioprofile'') = []"
    and "documents d (py ''portfolioproject'') = []"
    and first: "seed_content \<lparr>with_demo = True\<rparr> e = (r1, e1)"
    and second: "seed_content \<lparr>with_demo = True\<rparr> e1 = (r2, e2)"
  shows "r1 = Return (JDict [(py ''ok'', JBool True)]) \<and>
         r2 = Return (JDict [(py ''ok'', JBool True)]) \<and>
         (\<exists>d2. db e2 = Some d2 \<and>
            length (documents d2 (py ''portfolioprofile'')) = 1 \<and>
            length (documents d2 (py ''portfolioproject'')) = 3) \<and>
         db e2 = db e1 \<and>
         calls e2 = calls e1 @ [OpCount (py ''portfolioprofile''), OpCount (py ''portfolioproject'')]"
proof -
  from seed_empty_collections [OF assms(1-4)] first obtain d1 where
    r1: "r1 = Return (JDict [(py ''ok'', JBool True)])"
    and db1: "db e1 = Some d1"
    and rej: "rejects d1 = rejects d"
    and n1: "length (documents d1 (py ''portfolioprofile'')) = 1"
    and n3: "length (documents d1 (py ''portfolioproject'')) = 3"
    by auto
  from rej assms(2) have acc1: "accepts_seeding d1"
    by (simp add: accepts_seeding_def)
  from n1 n3 have ne: "documents d1 (py ''portfolioprofile'') \<noteq> []"
    "documents d1 (py ''portfolioproject'') \<noteq> []"
    by auto
  from seed_populated_collections [OF db1 acc1 ne] second
  have "r2 = Return (JDict [(py ''ok'', JBool True)])"
    and "e2 = e1\<lparr>calls := calls e1 @
                 [OpCount (py ''portfolioprofile''), OpCount (py ''portfolioproject'')]\<rparr>"
    by simp_all
  with r1 db1 n1 n3 show ?thesis by simp
qed

text \<open>The theorem at the process on the empty store.\<close>

theorem seed_twice_witness:
  "db connected = Some empty_store \<and> accepts_seeding empty_store \<and>
   documents empty_store (py ''portfolioprofile'') = [] \<and>
   documents empty_store (py ''portfolioproject'') = [] \<and>
   fst (seed_content \<lparr>with_demo = True\<rparr> connected) = Return (JDict [(py ''ok'', JBool True)]) \<and>
   fst (seed_content \<lparr>with_demo = True\<rparr> (snd (seed_content \<lparr>with_demo = True\<rparr> connected)))
     = Return (JDict [(py ''ok'', JBool True)]) \<and>
   (\<exists>d2. db (snd (seed_content \<lparr>with_demo = True\<rparr>
                    (snd (seed_content \<lparr>with_demo = True\<rparr> connected)))) = Some d2 \<and>
      length (documents d2 (py ''portfolioprofile'')) = 1 \<and>
      length (documents d2 (py ''portfolioproject'')) = 3)"
proof -
  have a: "db connected = Some empty_store" by (rule db_connected)
  have b: "accepts_seeding empty_store"
    by (simp add: accepts_seeding_def empty_store_def)
  have c: "documents empty_store (py ''portfolioprofile'') = []"
    "documents empty_store (py ''portfolioproject'') = []"
    by (simp_all add: documents_def empty_store_def)
  obtain r1 e1 where f: "seed_content \<lparr>with_demo = True\<rparr> connected = (r1, e1)"
    by (cases "seed_content \<lparr>with_demo = True\<rparr> connected") blast
  obtain r2 e2 where s: "seed_content \<lparr>with_demo = True\<rparr> e1 = (r2, e2)"
    by (cases "seed_content \<lparr>with_demo = True\<rparr> e1") blast
  from seed_twice_is_seed_once [OF a b c f s] obtain d2 where
    "r1 = Return (JDict [(py ''ok'', JBool True)])"
    "r2 = Return (JDict [(py ''ok'', JBool True)])"
    "db e2 = Some d2"
    "length (documents d2 (py ''portfolioprofile'')) = 1"
    "length (documents d2 (py ''portfolioproject'')) = 3"
    by blast
  with a b c show ?thesis
    by (simp add: f s)
qed

text \<open>
  C3 as stated fails when the backend refuses the project writes: both collections start
  empty, both calls are answered with status 500, and no project is stored afterwards.
\<close>

theorem seed_twice_with_refused_writes:
  "documents (the (db project_writes_refused)) (py ''portfolioprofile'') = [] \<and>
   documents (the (db project_writes_refused)) (py ''portfolioproject'') = [] \<and>
   fst (seed_content \<lparr>with_demo = True\<rparr> project_writes_refused)
     = HTTPError 500 (py ''write rejected'') \<and>
   fst (seed_content \<lparr>with_demo = True\<rparr>
          (snd (seed_content \<lparr>with_demo = True\<rparr> project_writes_refused)))
     = HTTPError 500 (py ''write rejected'') \<and>
   documents (the (db (snd (seed_content \<lparr>with_demo = True\<rparr>
          (snd (seed_content \<lparr>with_demo = True\<rparr> project_writes_refused))))))
     (py ''portfolioproject'') = []"
  by (simp add: project_writes_refused_def connected_def startup_def empty_store_def
      seed_content_def seed_body_def and_then_def count_documents_def create_document_def
      called_def documents_def sample_def Let_def)

text \<open>
  C9. \<open>POST /api/seed\<close> with \<open>with_demo\<close> false returns \<open>{ok: true}\<close> and the environment as
  it was: the list of store calls has no new entry (no count, no create) and the store,
  with both collections, is unchanged.
\<close>

theorem seed_without_demo_touches_nothing:
  "seed_content \<lparr>with_demo = False\<rparr> e = (Return (JDict [(py ''ok'', JBool True)]), e)"
  by (simp add: seed_content_def seed_body_def)

end
